theory Spec2Isabelle
  imports Complex_Main "HOL-Library.Stream"
begin

section \<open>Tower defense game: the simulation core of TowerDefenseGame\<close>

text \<open>
  The component keeps its entities in three arrays (towers, enemies, projectiles) and its
  economy in React state (gold, lives, gameSpeed, placingTower).  Each animation frame
  runs \<open>gameLoop\<close> once.  The embedding below follows
  \<^verbatim>\<open>src/components/TowerDefenseGame.tsx\<close>; the few definitions with the suffix
  \<open>_js\<close> follow the older \<^verbatim>\<open>components/TowerDefenseGame.js\<close>, which differs in
  the cooldown test.

  Conventions.
  \<^item> A TypeScript \<open>number\<close> is a \<open>real\<close>: rounding of IEEE doubles and \<open>NaN\<close> are
    not modelled.
  \<^item> Canvas drawing and the translation table have no effect on the state and are left out.
  \<^item> \<open>Math.random()\<close> is a stream of reals; every call takes the head.
  \<^item> Reading a property of \<open>undefined\<close> throws a \<open>TypeError\<close>; that is the \<open>Inl\<close>
    branch of the functions that look a tower type up.  The table \<open>towerTypes\<close> has its
    three own keys; the properties every JavaScript object inherits (\<open>constructor\<close> and
    the like) are not modelled as keys, and every property below is about a key of the table.
  \<^item> Record fields carry the name of their class as a prefix (\<open>tower_x\<close> for
    \<open>Tower.x\<close>), since several classes share field names.
\<close>

subsection \<open>Data model\<close>

datatype error = TypeError

record towerType =
  tt_cost :: real
  tt_damage :: real
  tt_range :: real
  tt_color :: string
  tt_accuracy :: real
  tt_attackSpeed :: real
  tt_element :: string

definition towerTypes :: "string \<rightharpoonup> towerType" where
  "towerTypes =
     [''basic'' \<mapsto> \<lparr>tt_cost = 50, tt_damage = 10, tt_range = 100, tt_color = ''blue'',
                    tt_accuracy = 0.8, tt_attackSpeed = 1000, tt_element = ''fire''\<rparr>,
      ''sniper'' \<mapsto> \<lparr>tt_cost = 100, tt_damage = 30, tt_range = 200, tt_color = ''purple'',
                     tt_accuracy = 0.95, tt_attackSpeed = 1500, tt_element = ''ice''\<rparr>,
      ''splash'' \<mapsto> \<lparr>tt_cost = 150, tt_damage = 20, tt_range = 80, tt_color = ''green'',
                     tt_accuracy = 0.7, tt_attackSpeed = 1200, tt_element = ''electric''\<rparr>]"

record tower =
  tower_x :: real
  tower_y :: real
  tower_type :: string
  tower_lastShot :: real

record enemy =
  enemy_x :: real
  enemy_y :: real
  enemy_health :: real
  enemy_maxHealth :: real
  enemy_progress :: real
  enemy_resistances :: "string \<rightharpoonup> real"

record projectile =
  proj_x :: real
  proj_y :: real
  proj_targetX :: real
  proj_targetY :: real
  proj_damage :: real
  proj_color :: string
  proj_element :: string

text \<open>
  The state of the component.  \<open>animationFrame\<close> is true while a call of \<open>gameLoop\<close>
  is requested from the browser and not yet run or cancelled.
\<close>

record game =
  gold :: real
  lives :: real
  gameSpeed :: real
  placingTower :: "string option"
  isDarkMode :: bool
  towers :: "tower list"
  enemies :: "enemy list"
  projectiles :: "projectile list"
  animationFrame :: bool

definition initialGame :: "bool \<Rightarrow> game" where
  "initialGame dark =
     \<lparr>gold = 200, lives = 20, gameSpeed = 1, placingTower = None, isDarkMode = dark,
      towers = [], enemies = [], projectiles = [], animationFrame = True\<rparr>"

subsection \<open>Numbers\<close>

definition hypot :: "real \<Rightarrow> real \<Rightarrow> real" where
  "hypot a b = sqrt (a\<^sup>2 + b\<^sup>2)"

text \<open>\<open>v || 0\<close> on an optional number: \<open>undefined\<close> and \<open>0\<close> are falsy.\<close>

definition or_zero :: "real option \<Rightarrow> real" where
  "or_zero v = (case v of None \<Rightarrow> 0 | Some r \<Rightarrow> (if r = 0 then 0 else r))"

subsection \<open>class Tower\<close>

definition new_Tower :: "real \<Rightarrow> real \<Rightarrow> string \<Rightarrow> tower" where
  "new_Tower x y type =
     \<lparr>tower_x = x, tower_y = y, tower_type = type, tower_lastShot = 0\<rparr>"

definition canShoot :: "tower \<Rightarrow> real \<Rightarrow> error + bool" where
  "canShoot t currentTime =
     (case towerTypes (tower_type t) of
        None \<Rightarrow> Inl TypeError
      | Some tt \<Rightarrow> Inr (currentTime - tower_lastShot t > tt_attackSpeed tt))"

definition shoot :: "tower \<Rightarrow> real \<Rightarrow> tower" where
  "shoot t currentTime = t\<lparr>tower_lastShot := currentTime\<rparr>"

subsection \<open>class Enemy\<close>

definition new_Enemy :: "real \<Rightarrow> real \<Rightarrow> real \<Rightarrow> (string \<rightharpoonup> real) \<Rightarrow> enemy" where
  "new_Enemy x y health resistances =
     \<lparr>enemy_x = x, enemy_y = y, enemy_health = health, enemy_maxHealth = health,
      enemy_progress = 0, enemy_resistances = resistances\<rparr>"

definition isAlive :: "enemy \<Rightarrow> bool" where
  "isAlive e = (enemy_health e > 0)"

definition enemy_update :: "real \<Rightarrow> enemy \<Rightarrow> enemy" where
  "enemy_update speed e =
     (let progress = enemy_progress e + 1 * speed
      in e\<lparr>enemy_progress := progress, enemy_x := progress * 4\<rparr>)"

definition reachedEnd :: "enemy \<Rightarrow> bool" where
  "reachedEnd e = (enemy_progress e \<ge> 200)"

definition takeDamage :: "enemy \<Rightarrow> real \<Rightarrow> string \<Rightarrow> enemy" where
  "takeDamage e damage element =
     (let resistance = or_zero (enemy_resistances e element);
          effectiveDamage = damage * (1 - resistance)
      in e\<lparr>enemy_health := enemy_health e - effectiveDamage\<rparr>)"

subsection \<open>class Projectile\<close>

definition new_Projectile ::
  "real \<Rightarrow> real \<Rightarrow> real \<Rightarrow> real \<Rightarrow> real \<Rightarrow> string \<Rightarrow> string \<Rightarrow> projectile" where
  "new_Projectile x y targetX targetY damage color element =
     \<lparr>proj_x = x, proj_y = y, proj_targetX = targetX, proj_targetY = targetY,
      proj_damage = damage, proj_color = color, proj_element = element\<rparr>"

text \<open>The result is the projectile after the call and the value returned (does it live on).\<close>

definition projectile_update :: "real \<Rightarrow> projectile \<Rightarrow> projectile \<times> bool" where
  "projectile_update speed p =
     (let dx = proj_targetX p - proj_x p;
          dy = proj_targetY p - proj_y p;
          distance = hypot dx dy
      in if distance < 5 then (p, False)
         else (p\<lparr>proj_x := proj_x p + (dx / distance) * 5 * speed,
                 proj_y := proj_y p + (dy / distance) * 5 * speed\<rparr>, True))"

subsection \<open>Commands of the component\<close>

text \<open>
  \<open>addTower\<close> reads \<open>gold\<close> from the render it was created in; the model takes every
  state change as rendered before the next handler or frame runs, so that value is the
  \<open>gold\<close> of the state.
\<close>

definition addTower :: "real \<Rightarrow> real \<Rightarrow> string \<Rightarrow> game \<Rightarrow> error + game" where
  "addTower x y type s =
     (case towerTypes type of
        None \<Rightarrow> Inl TypeError
      | Some tt \<Rightarrow>
          (let towerCost = tt_cost tt;
               s1 = (if gold s \<ge> towerCost
                     then s\<lparr>towers := towers s @ [new_Tower x y type],
                            gold := gold s - towerCost\<rparr>
                     else s)
           in Inr (s1\<lparr>placingTower := None\<rparr>)))"

definition spawnEnemy :: "game \<Rightarrow> game" where
  "spawnEnemy s =
     s\<lparr>enemies := enemies s @
          [new_Enemy 0 200 300 [''fire'' \<mapsto> 0.2, ''ice'' \<mapsto> 0.0, ''electric'' \<mapsto> 0.1]]\<rparr>"

text \<open>\<open>handleCanvasClick\<close>: a click on the canvas places a tower only in placement mode.\<close>

definition handleCanvasClick :: "real \<Rightarrow> real \<Rightarrow> game \<Rightarrow> error + game" where
  "handleCanvasClick x y s =
     (case placingTower s of
        None \<Rightarrow> Inr s
      | Some type \<Rightarrow> (if type = [] then Inr s else addTower x y type s))"

subsection \<open>The game loop\<close>

text \<open>
  \<open>enemies.find(enemy => hypot(..) < towerTypes[tower.type].range && enemy.isAlive())\<close>:
  the type is looked up once per enemy visited, so an unknown type throws only when
  there is an enemy to visit.
\<close>

fun findNearby :: "tower \<Rightarrow> enemy list \<Rightarrow> error + enemy option" where
  "findNearby t [] = Inr None"
| "findNearby t (e # es) =
     (case towerTypes (tower_type t) of
        None \<Rightarrow> Inl TypeError
      | Some tt \<Rightarrow>
          (if hypot (enemy_x e - tower_x t) (enemy_y e - tower_y t) < tt_range tt \<and> isAlive e
           then Inr (Some e)
           else findNearby t es))"

definition projectileColor :: "bool \<Rightarrow> string" where
  "projectileColor dark = (if dark then ''#ffffff'' else ''black'')"

text \<open>
  The body of \<open>towersRef.current.forEach\<close> for one tower: the tower after the call, the
  projectiles pushed, and the random source after it.
\<close>

definition towerAttack ::
  "real \<Rightarrow> bool \<Rightarrow> enemy list \<Rightarrow> tower \<Rightarrow> real stream
    \<Rightarrow> error + (tower \<times> projectile list \<times> real stream)" where
  "towerAttack currentTime dark es t rng =
     (case findNearby t es of
        Inl err \<Rightarrow> Inl err
      | Inr None \<Rightarrow> Inr (t, [], rng)
      | Inr (Some nearbyEnemy) \<Rightarrow>
          (case canShoot t currentTime of
             Inl err \<Rightarrow> Inl err
           | Inr False \<Rightarrow> Inr (t, [], rng)
           | Inr True \<Rightarrow>
               (case towerTypes (tower_type t) of
                  None \<Rightarrow> Inl TypeError
                | Some tt \<Rightarrow>
                    Inr (shoot t currentTime,
                         (if shd rng < tt_accuracy tt
                          then [new_Projectile (tower_x t) (tower_y t)
                                  (enemy_x nearbyEnemy) (enemy_y nearbyEnemy)
                                  (tt_damage tt) (projectileColor dark) (tt_element tt)]
                          else []),
                         stl rng))))"

fun towersAttack ::
  "real \<Rightarrow> bool \<Rightarrow> enemy list \<Rightarrow> tower list \<Rightarrow> real stream
    \<Rightarrow> error + (tower list \<times> projectile list \<times> real stream)" where
  "towersAttack currentTime dark es [] rng = Inr ([], [], rng)"
| "towersAttack currentTime dark es (t # ts) rng =
     (case towerAttack currentTime dark es t rng of
        Inl err \<Rightarrow> Inl err
      | Inr (t', shots, rng') \<Rightarrow>
          (case towersAttack currentTime dark es ts rng' of
             Inl err \<Rightarrow> Inl err
           | Inr (ts', shots', rng'') \<Rightarrow> Inr (t' # ts', shots @ shots', rng'')))"

text \<open>
  The enemy hit by an arrived projectile: \<open>find\<close> returns the first enemy near the target
  point that is alive, and \<open>takeDamage\<close> changes that object where it is in the array.
\<close>

definition nearTarget :: "projectile \<Rightarrow> enemy \<Rightarrow> bool" where
  "nearTarget p e =
     (hypot (enemy_x e - proj_targetX p) (enemy_y e - proj_targetY p) < 20 \<and> isAlive e)"

fun hitEnemy :: "projectile \<Rightarrow> enemy list \<Rightarrow> enemy list" where
  "hitEnemy p [] = []"
| "hitEnemy p (e # es) =
     (if nearTarget p e then takeDamage e (proj_damage p) (proj_element p) # es
      else e # hitEnemy p es)"

text \<open>\<open>projectilesRef.current.filter\<close>: the projectiles kept and the enemies after the hits.\<close>

fun updateProjectiles ::
  "real \<Rightarrow> projectile list \<Rightarrow> enemy list \<Rightarrow> projectile list \<times> enemy list" where
  "updateProjectiles speed [] es = ([], es)"
| "updateProjectiles speed (p # ps) es =
     (case projectile_update speed p of
        (p', True) \<Rightarrow>
          (case updateProjectiles speed ps es of (ps', es') \<Rightarrow> (p' # ps', es'))
      | (p', False) \<Rightarrow> updateProjectiles speed ps (hitEnemy p' es))"

text \<open>
  The enemies and projectiles after movement and combat, before the economy is settled:
  the first half of \<open>gameLoop\<close>.
\<close>

definition combat ::
  "real \<Rightarrow> real stream \<Rightarrow> game
    \<Rightarrow> error + (tower list \<times> projectile list \<times> enemy list \<times> real stream)" where
  "combat currentTime rng s =
     (let moved = map (enemy_update (gameSpeed s)) (enemies s)
      in case towersAttack currentTime (isDarkMode s) moved (towers s) rng of
           Inl err \<Rightarrow> Inl err
         | Inr (ts, shots, rng') \<Rightarrow>
             (case updateProjectiles (gameSpeed s) (projectiles s @ shots) moved of
                (ps, es) \<Rightarrow> Inr (ts, ps, es, rng')))"

definition surviving :: "enemy \<Rightarrow> bool" where
  "surviving e = (isAlive e \<and> \<not> reachedEnd e)"

text \<open>
  One call of \<open>gameLoop\<close>.  \<open>setLives\<close> and \<open>setGold\<close> change the state of the next
  render; the \<open>lives\<close> tested at the end is the constant of the render that created this
  closure, which is \<open>lives s\<close>.
\<close>

definition gameLoop :: "real \<Rightarrow> real stream \<Rightarrow> game \<Rightarrow> error + (game \<times> real stream)" where
  "gameLoop currentTime rng s =
     (case combat currentTime rng s of
        Inl err \<Rightarrow> Inl err
      | Inr (ts, ps, es, rng') \<Rightarrow>
          (let survivingEnemies = filter surviving es;
               defeatedEnemies = length es - length survivingEnemies;
               s1 = s\<lparr>towers := ts, projectiles := ps, enemies := survivingEnemies\<rparr>;
               s2 = (if defeatedEnemies > 0
                     then s1\<lparr>lives := lives s - real defeatedEnemies,
                             gold := gold s + real defeatedEnemies * 10\<rparr>
                     else s1)
           in Inr (if lives s \<le> 0 then s2\<lparr>animationFrame := False\<rparr>
                   else s2\<lparr>animationFrame := True\<rparr>, rng')))"

text \<open>
  The effect that owns the loop has \<open>gold\<close> and \<open>lives\<close> among its dependencies: after
  a render in which one of them changed, its cleanup cancels the requested frame and its
  body requests \<open>gameLoop\<close> again.
\<close>

definition useEffect_gameLoop :: "game \<Rightarrow> game" where
  "useEffect_gameLoop s = s\<lparr>animationFrame := True\<rparr>"

text \<open>
  One animation frame as the browser and React run it: the requested call of
  \<open>gameLoop\<close>, then the render and the effect when the call changed \<open>gold\<close> or
  \<open>lives\<close>.  Without a requested call nothing happens.
\<close>

definition frame :: "real \<Rightarrow> real stream \<Rightarrow> game \<Rightarrow> error + (game \<times> real stream)" where
  "frame currentTime rng s =
     (if animationFrame s
      then (case gameLoop currentTime rng s of
              Inl err \<Rightarrow> Inl err
            | Inr (s', rng') \<Rightarrow>
                Inr (if gold s' = gold s \<and> lives s' = lives s
                     then s' else useEffect_gameLoop s', rng'))
      else Inr (s, rng))"

text \<open>
  The states the component can get into: from the initial one by the commands of the
  user interface, by calls of the loop and by runs of the effect.
\<close>

inductive reachable :: "game \<Rightarrow> bool" where
  start: "reachable (initialGame dark)"
| place: "reachable s \<Longrightarrow> addTower x y type s = Inr s' \<Longrightarrow> reachable s'"
| spawn: "reachable s \<Longrightarrow> reachable (spawnEnemy s)"
| loop: "reachable s \<Longrightarrow> gameLoop currentTime rng s = Inr (s', rng') \<Longrightarrow> reachable s'"
| effect: "reachable s \<Longrightarrow> reachable (useEffect_gameLoop s)"
| setGameSpeed: "reachable s \<Longrightarrow> reachable (s\<lparr>gameSpeed := speed\<rparr>)"
| setPlacingTower: "reachable s \<Longrightarrow> reachable (s\<lparr>placingTower := selected\<rparr>)"
| setIsDarkMode: "reachable s \<Longrightarrow> reachable (s\<lparr>isDarkMode := dark\<rparr>)"

subsection \<open>Observing one tower over many frames\<close>

text \<open>
  A frame as one tower sees it: the speed at which the enemies move before the towers
  attack, the dark-mode flag, the value of \<open>Date.now()\<close>, the enemies at the start
  of the frame and the random source.  \<open>towerShots\<close> runs the tower through a sequence
  of frames and lists the times at which it pushed a projectile.
\<close>

type_synonym tick = "real \<times> bool \<times> real \<times> enemy list \<times> real stream"

fun towerShots :: "tower \<Rightarrow> tick list \<Rightarrow> error + real list" where
  "towerShots t [] = Inr []"
| "towerShots t ((speed, dark, currentTime, es, rng) # ticks) =
     (case towerAttack currentTime dark (map (enemy_update speed) es) t rng of
        Inl err \<Rightarrow> Inl err
      | Inr (t', shots, rng') \<Rightarrow>
          (case towerShots t' ticks of
             Inl err \<Rightarrow> Inl err
           | Inr later \<Rightarrow> Inr (replicate (length shots) currentTime @ later)))"

subsection \<open>The older component, components/TowerDefenseGame.js\<close>

text \<open>
  Its tower types have no attack speed and no element, its enemies no resistances; the
  class \<open>Tower\<close> has the same fields and constructor, and \<open>canShoot\<close> takes the game
  speed.  \<open>1000 / 0\<close> is \<open>Infinity\<close>, which no time difference exceeds.
\<close>

record towerType_js =
  js_cost :: real
  js_damage :: real
  js_range :: real
  js_color :: string
  js_accuracy :: real

definition towerTypes_js :: "string \<rightharpoonup> towerType_js" where
  "towerTypes_js =
     [''basic'' \<mapsto> \<lparr>js_cost = 50, js_damage = 10, js_range = 100, js_color = ''blue'',
                    js_accuracy = 0.8\<rparr>,
      ''sniper'' \<mapsto> \<lparr>js_cost = 100, js_damage = 30, js_range = 200, js_color = ''purple'',
                     js_accuracy = 0.9\<rparr>,
      ''splash'' \<mapsto> \<lparr>js_cost = 150, js_damage = 20, js_range = 80, js_color = ''green'',
                     js_accuracy = 0.7\<rparr>]"

record enemy_js =
  ejs_x :: real
  ejs_y :: real
  ejs_health :: real
  ejs_maxHealth :: real
  ejs_progress :: real

record projectile_js =
  pjs_x :: real
  pjs_y :: real
  pjs_targetX :: real
  pjs_targetY :: real
  pjs_damage :: real
  pjs_color :: string

definition canShoot_js :: "tower \<Rightarrow> real \<Rightarrow> real \<Rightarrow> bool" where
  "canShoot_js t currentTime speed =
     (if speed = 0 then False else currentTime - tower_lastShot t > 1000 / speed)"

definition new_Enemy_js :: "real \<Rightarrow> real \<Rightarrow> real \<Rightarrow> enemy_js" where
  "new_Enemy_js x y health =
     \<lparr>ejs_x = x, ejs_y = y, ejs_health = health, ejs_maxHealth = health, ejs_progress = 0\<rparr>"

definition isAlive_js :: "enemy_js \<Rightarrow> bool" where
  "isAlive_js e = (ejs_health e > 0)"

definition enemy_update_js :: "real \<Rightarrow> enemy_js \<Rightarrow> enemy_js" where
  "enemy_update_js speed e =
     (let progress = ejs_progress e + 1 * speed
      in e\<lparr>ejs_progress := progress, ejs_x := progress * 4\<rparr>)"

fun findNearby_js :: "tower \<Rightarrow> enemy_js list \<Rightarrow> error + enemy_js option" where
  "findNearby_js t [] = Inr None"
| "findNearby_js t (e # es) =
     (case towerTypes_js (tower_type t) of
        None \<Rightarrow> Inl TypeError
      | Some tt \<Rightarrow>
          (if hypot (ejs_x e - tower_x t) (ejs_y e - tower_y t) < js_range tt \<and> isAlive_js e
           then Inr (Some e)
           else findNearby_js t es))"

definition towerAttack_js ::
  "real \<Rightarrow> real \<Rightarrow> enemy_js list \<Rightarrow> tower \<Rightarrow> real stream
    \<Rightarrow> error + (tower \<times> projectile_js list \<times> real stream)" where
  "towerAttack_js currentTime speed es t rng =
     (case findNearby_js t es of
        Inl err \<Rightarrow> Inl err
      | Inr None \<Rightarrow> Inr (t, [], rng)
      | Inr (Some nearbyEnemy) \<Rightarrow>
          (if canShoot_js t currentTime speed
           then (case towerTypes_js (tower_type t) of
                   None \<Rightarrow> Inl TypeError
                 | Some tt \<Rightarrow>
                     Inr (shoot t currentTime,
                          (if shd rng < js_accuracy tt
                           then [\<lparr>pjs_x = tower_x t, pjs_y = tower_y t,
                                  pjs_targetX = ejs_x nearbyEnemy,
                                  pjs_targetY = ejs_y nearbyEnemy,
                                  pjs_damage = js_damage tt, pjs_color = js_color tt\<rparr>]
                           else []),
                          stl rng))
           else Inr (t, [], rng)))"

type_synonym tick_js = "real \<times> real \<times> enemy_js list \<times> real stream"

fun towerShots_js :: "tower \<Rightarrow> tick_js list \<Rightarrow> error + real list" where
  "towerShots_js t [] = Inr []"
| "towerShots_js t ((speed, currentTime, es, rng) # ticks) =
     (case towerAttack_js currentTime speed (map (enemy_update_js speed) es) t rng of
        Inl err \<Rightarrow> Inl err
      | Inr (t', shots, rng') \<Rightarrow>
          (case towerShots_js t' ticks of
             Inl err \<Rightarrow> Inl err
           | Inr later \<Rightarrow> Inr (replicate (length shots) currentTime @ later)))"

subsection \<open>Sample entities\<close>

text \<open>Two enemies on the track, the second one closer to a tower standing at \<open>(100, 200)\<close>.\<close>

definition farEnemy :: enemy where
  "farEnemy = new_Enemy 0 200 300 Map.empty\<lparr>enemy_x := 190\<rparr>"

definition nearEnemy :: enemy where
  "nearEnemy = new_Enemy 0 200 300 Map.empty\<lparr>enemy_x := 110\<rparr>"

text \<open>
  The projectile of a tower of type splash standing at \<open>(100, 200)\<close>, aimed at \<open>(106, 200)\<close>
  and arrived there, and an enemy as \<open>spawnEnemy\<close> makes it, moved along the track.
\<close>

definition splashShot :: projectile where
  "splashShot = new_Projectile 106 200 106 200 20 ''black'' ''electric''"

definition walker :: "real \<Rightarrow> enemy" where
  "walker progress =
     new_Enemy 0 200 300 [''fire'' \<mapsto> 0.2, ''ice'' \<mapsto> 0.0, ''electric'' \<mapsto> 0.1]
       \<lparr>enemy_progress := progress, enemy_x := progress * 4\<rparr>"

text \<open>
  A game in which one frame removes two enemies: the first reaches the end of the track,
  the second is killed by the arriving projectile.  The tower is on cooldown.
\<close>

definition sampleGame :: game where
  "sampleGame =
     (initialGame False)
       \<lparr>towers := [new_Tower 100 200 ''basic''\<lparr>tower_lastShot := 4990\<rparr>],
        enemies := [walker 199.5, walker 26.5\<lparr>enemy_health := 5\<rparr>, walker 28.5],
        projectiles := [splashShot]\<rparr>"

text \<open>
  Four frames for a basic tower at \<open>(100, 200)\<close> with an enemy in range: the second comes
  600 ms after the first shot, at double speed; in the third the random draw misses.
\<close>

definition sampleTicks :: "tick list" where
  "sampleTicks =
     [(2, False, 5000, [walker 10], sconst 0),
      (2, False, 5600, [walker 12], sconst 0),
      (0.5, False, 6001, [walker 14], sconst 0.9),
      (1, False, 7002, [walker 14.5], sconst 0)]"

text \<open>Two frames of the older component at double speed, 600 ms apart.\<close>

definition sampleTicks_js :: "tick_js list" where
  "sampleTicks_js =
     [(2, 1000000, [new_Enemy_js 0 200 100], sconst 0),
      (2, 1000600, [new_Enemy_js 0 200 100], sconst 0)]"

text \<open>A game with one life left, an enemy one step from the end of the track and a fresh one.\<close>

definition lastLife :: game where
  "lastLife = (initialGame False)\<lparr>lives := 1, enemies := [walker 199, walker 0]\<rparr>"

section \<open>Properties\<close>

subsection \<open>Auxiliary facts\<close>

lemma towerTypes_basic:
  "towerTypes ''basic'' =
     Some \<lparr>tt_cost = 50, tt_damage = 10, tt_range = 100, tt_color = ''blue'',
           tt_accuracy = 0.8, tt_attackSpeed = 1000, tt_element = ''fire''\<rparr>"
  by (simp add: towerTypes_def)

lemma towerTypes_sniper:
  "towerTypes ''sniper'' =
     Some \<lparr>tt_cost = 100, tt_damage = 30, tt_range = 200, tt_color = ''purple'',
           tt_accuracy = 0.95, tt_attackSpeed = 1500, tt_element = ''ice''\<rparr>"
  by (simp add: towerTypes_def)

lemma towerTypes_splash:
  "towerTypes ''splash'' =
     Some \<lparr>tt_cost = 150, tt_damage = 20, tt_range = 80, tt_color = ''green'',
           tt_accuracy = 0.7, tt_attackSpeed = 1200, tt_element = ''electric''\<rparr>"
  by (simp add: towerTypes_def)

lemma attackSpeed_pos: "towerTypes k = Some tt \<Longrightarrow> 0 < tt_attackSpeed tt"
  by (auto simp: towerTypes_def split: if_splits)

text \<open>Comparing a distance with a positive bound needs no square root.\<close>

lemma hypot_less_iff: "0 < r \<Longrightarrow> hypot a b < r \<longleftrightarrow> a\<^sup>2 + b\<^sup>2 < r\<^sup>2"
  unfolding hypot_def
  by (metis real_sqrt_less_iff real_sqrt_abs abs_of_pos)

text \<open>With a registered tower type, the search of the loop is \<open>Array.prototype.find\<close>.\<close>

lemma findNearby_find:
  "towerTypes (tower_type t) = Some tt \<Longrightarrow>
   findNearby t es =
     Inr (List.find (\<lambda>e. hypot (enemy_x e - tower_x t) (enemy_y e - tower_y t) < tt_range tt
                          \<and> isAlive e) es)"
  by (induction es) simp_all

text \<open>What the loop does with a tower that has a target and is off cooldown.\<close>

lemma towerAttack_fires:
  assumes "towerTypes (tower_type t) = Some tt"
    and "\<exists>e\<in>set es. hypot (enemy_x e - tower_x t) (enemy_y e - tower_y t) < tt_range tt
                      \<and> isAlive e"
    and "currentTime - tower_lastShot t > tt_attackSpeed tt"
  shows "\<exists>e. findNearby t es = Inr (Some e)
           \<and> towerAttack currentTime dark es t rng =
               Inr (shoot t currentTime,
                    (if shd rng < tt_accuracy tt
                     then [new_Projectile (tower_x t) (tower_y t) (enemy_x e) (enemy_y e)
                             (tt_damage tt) (projectileColor dark) (tt_element tt)]
                     else []),
                    stl rng)"
proof -
  let ?P = "\<lambda>e. hypot (enemy_x e - tower_x t) (enemy_y e - tower_y t) < tt_range tt \<and> isAlive e"
  have "List.find ?P es \<noteq> None"
    using assms(2) by (auto simp add: find_None_iff)
  then obtain e where e: "findNearby t es = Inr (Some e)"
    using findNearby_find [OF assms(1), of es] by auto
  moreover have "canShoot t currentTime = Inr True"
    using assms(1,3) by (simp add: canShoot_def)
  ultimately show ?thesis
    using assms(1) by (simp add: towerAttack_def)
qed

text \<open>An arrived projectile changes the enemies as \<open>hitEnemy\<close> says: the cases.\<close>

lemma length_hitEnemy [simp]: "length (hitEnemy p es) = length es"
  by (induction es) simp_all

lemma hitEnemy_none: "\<forall>e\<in>set es. \<not> nearTarget p e \<Longrightarrow> hitEnemy p es = es"
  by (induction es) simp_all

lemma hitEnemy_first:
  "i < length es \<Longrightarrow> nearTarget p (es ! i) \<Longrightarrow> \<forall>j<i. \<not> nearTarget p (es ! j) \<Longrightarrow>
   hitEnemy p es = es[i := takeDamage (es ! i) (proj_damage p) (proj_element p)]"
proof (induction es arbitrary: i)
  case Nil
  then show ?case by simp
next
  case (Cons e es)
  show ?case
  proof (cases i)
    case 0
    with Cons.prems show ?thesis by simp
  next
    case (Suc k)
    with Cons.prems have "\<not> nearTarget p e" by auto
    moreover have "hitEnemy p es = es[k := takeDamage (es ! k) (proj_damage p) (proj_element p)]"
      using Cons.prems Suc by (intro Cons.IH) auto
    ultimately show ?thesis using Suc by simp
  qed
qed


lemma hitEnemy_changes_le_1:
  "length (filter (\<lambda>i. hitEnemy p es ! i \<noteq> es ! i) [0..<length es]) \<le> 1"
proof (cases "\<forall>e\<in>set es. \<not> nearTarget p e")
  case True
  then show ?thesis by (simp add: hitEnemy_none)
next
  case False
  then have "List.find (nearTarget p) es \<noteq> None"
    by (auto simp add: find_None_iff)
  then obtain i where i: "i < length es" "nearTarget p (es ! i)" "\<forall>j<i. \<not> nearTarget p (es ! j)"
    by (auto simp add: find_Some_iff)
  let ?es' = "es[i := takeDamage (es ! i) (proj_damage p) (proj_element p)]"
  let ?ch = "filter (\<lambda>k. ?es' ! k \<noteq> es ! k) [0..<length es]"
  have h: "hitEnemy p es = ?es'"
    using i by (rule hitEnemy_first)
  have "set ?ch \<subseteq> {i}"
  proof
    fix k
    assume "k \<in> set ?ch"
    then have ne: "?es' ! k \<noteq> es ! k"
      by simp
    have "k = i"
    proof (rule ccontr)
      assume "k \<noteq> i"
      then have "i \<noteq> k"
        by simp
      then have "?es' ! k = es ! k"
        by (rule nth_list_update_neq)
      with ne show False
        by simp
    qed
    then show "k \<in> {i}"
      by simp
  qed
  then have "card (set ?ch) \<le> card {i}"
    by (intro card_mono) auto
  then have c: "card (set ?ch) \<le> 1"
    by simp
  have "distinct ?ch"
    by simp
  then have "card (set ?ch) = length ?ch"
    by (rule distinct_card)
  with c have "length ?ch \<le> 1"
    by (simp only:)
  then show ?thesis
    unfolding h .
qed

text \<open>With registered tower types the loop does not throw, and it keeps the number of enemies until the economy is settled.\<close>

lemma towerAttack_total:
  assumes "towerTypes (tower_type t) = Some tt"
  shows "\<exists>t' shots rng'. towerAttack currentTime dark es t rng = Inr (t', shots, rng')
           \<and> tower_type t' = tower_type t"
  using assms findNearby_find [OF assms, of es]
  by (cases "tt_attackSpeed tt < currentTime - tower_lastShot t")
    (auto simp add: towerAttack_def canShoot_def shoot_def split: option.split)

lemma towersAttack_total:
  "\<forall>t\<in>set ts. towerTypes (tower_type t) \<noteq> None \<Longrightarrow>
   \<exists>ts' shots rng'. towersAttack currentTime dark es ts rng = Inr (ts', shots, rng')
      \<and> map tower_type ts' = map tower_type ts"
proof (induction ts arbitrary: rng)
  case Nil
  then show ?case by simp
next
  case (Cons t ts)
  then obtain tt where "towerTypes (tower_type t) = Some tt"
    by auto
  then obtain t' shots rng' where 1: "towerAttack currentTime dark es t rng = Inr (t', shots, rng')"
      "tower_type t' = tower_type t"
    using towerAttack_total by blast
  obtain ts' shots' rng'' where 2: "towersAttack currentTime dark es ts rng' = Inr (ts', shots', rng'')"
      "map tower_type ts' = map tower_type ts"
    using Cons.IH [of rng'] Cons.prems by auto
  show ?case
    using 1 2 by simp
qed

lemma length_updateProjectiles:
  "length (snd (updateProjectiles speed ps es)) = length es"
proof (induction ps arbitrary: es)
  case Nil
  then show ?case by simp
next
  case (Cons p ps)
  obtain p' b where u: "projectile_update speed p = (p', b)"
    by (cases "projectile_update speed p")
  show ?case
  proof (cases b)
    case True
    obtain ps' es' where r: "updateProjectiles speed ps es = (ps', es')"
      by (cases "updateProjectiles speed ps es")
    have "length es' = length es"
      using Cons.IH [of es] r by simp
    then show ?thesis
      using u True r by simp
  next
    case False
    then show ?thesis
      using u Cons.IH [of "hitEnemy p' es"] by simp
  qed
qed

lemma combat_total:
  assumes "\<forall>t\<in>set (towers s). towerTypes (tower_type t) \<noteq> None"
  shows "\<exists>ts ps es rng'. combat currentTime rng s = Inr (ts, ps, es, rng')
           \<and> length es = length (enemies s) \<and> map tower_type ts = map tower_type (towers s)"
proof -
  let ?moved = "map (enemy_update (gameSpeed s)) (enemies s)"
  obtain ts shots rng' where 1:
      "towersAttack currentTime (isDarkMode s) ?moved (towers s) rng = Inr (ts, shots, rng')"
      "map tower_type ts = map tower_type (towers s)"
    using towersAttack_total [OF assms] by blast
  obtain ps es where 2: "updateProjectiles (gameSpeed s) (projectiles s @ shots) ?moved = (ps, es)"
    by (cases "updateProjectiles (gameSpeed s) (projectiles s @ shots) ?moved")
  have "length es = length (enemies s)"
    using length_updateProjectiles [of "gameSpeed s" "projectiles s @ shots" ?moved] 2 by simp
  then show ?thesis
    using 1 2 by (simp add: combat_def)
qed

lemma length_filter_surviving:
  "length es - length (filter surviving es)
     = length (filter (\<lambda>e. enemy_health e \<le> 0 \<or> enemy_progress e \<ge> 200) es)"
proof -
  have "(\<lambda>e. enemy_health e \<le> 0 \<or> enemy_progress e \<ge> 200) = (\<lambda>e. \<not> surviving e)"
    by (auto simp add: surviving_def isAlive_def reachedEnd_def)
  then show ?thesis
    using sum_length_filter_compl [of surviving es] by simp
qed

lemma combat_sampleGame:
  "combat 5000 (sconst 0) sampleGame =
     Inr ([new_Tower 100 200 ''basic''\<lparr>tower_lastShot := 4990\<rparr>], [],
          [walker 200.5, walker 27.5\<lparr>enemy_health := - 13\<rparr>, walker 29.5], sconst 0)"
  by (simp add: combat_def sampleGame_def initialGame_def walker_def new_Enemy_def
      enemy_update_def Let_def towerAttack_def new_Tower_def towerTypes_basic isAlive_def
      hypot_less_iff canShoot_def splashShot_def new_Projectile_def projectile_update_def
      nearTarget_def takeDamage_def or_zero_def)

text \<open>A tower over a sequence of frames: every shot comes more than the attack speed after the last shot before it.\<close>

lemma towerAttack_cases:
  assumes "towerTypes (tower_type t) = Some tt"
    and "towerAttack currentTime dark es t rng = Inr (t', shots, rng')"
  shows "(t' = t \<and> shots = []) \<or>
         (currentTime - tower_lastShot t > tt_attackSpeed tt
            \<and> t' = t\<lparr>tower_lastShot := currentTime\<rparr> \<and> length shots \<le> 1)"
  using assms findNearby_find [OF assms(1), of es]
  by (cases "tt_attackSpeed tt < currentTime - tower_lastShot t")
    (auto simp add: towerAttack_def canShoot_def shoot_def split: option.splits if_splits)

lemma towerShots_spaced:
  assumes "towerTypes (tower_type t) = Some tt"
  shows "\<exists>shots. towerShots t ticks = Inr shots
           \<and> (\<forall>x\<in>set shots. x - tower_lastShot t > tt_attackSpeed tt)
           \<and> sorted_wrt (\<lambda>a b. b - a > tt_attackSpeed tt) shots"
  using assms
proof (induction ticks arbitrary: t)
  case Nil
  then show ?case by simp
next
  case (Cons tick ticks)
  obtain speed dark currentTime es rng where tick: "tick = (speed, dark, currentTime, es, rng)"
    by (cases tick)
  let ?es = "map (enemy_update speed) es"
  obtain t' sh rng' where a: "towerAttack currentTime dark ?es t rng = Inr (t', sh, rng')"
      "tower_type t' = tower_type t"
    using towerAttack_total [OF Cons.prems] by blast
  have reg': "towerTypes (tower_type t') = Some tt"
    using a(2) Cons.prems by simp
  obtain later where l: "towerShots t' ticks = Inr later"
      "\<forall>x\<in>set later. x - tower_lastShot t' > tt_attackSpeed tt"
      "sorted_wrt (\<lambda>a b. b - a > tt_attackSpeed tt) later"
    using Cons.IH [OF reg'] by blast
  have shots: "towerShots t (tick # ticks) = Inr (replicate (length sh) currentTime @ later)"
    using a l by (simp add: tick)
  have pos: "0 < tt_attackSpeed tt"
    using Cons.prems by (rule attackSpeed_pos)
  from towerAttack_cases [OF Cons.prems a(1)]
  show ?case
  proof
    assume "t' = t \<and> sh = []"
    then show ?thesis
      using shots l by simp
  next
    assume f: "currentTime - tower_lastShot t > tt_attackSpeed tt
            \<and> t' = t\<lparr>tower_lastShot := currentTime\<rparr> \<and> length sh \<le> 1"
    then have ls: "tower_lastShot t' = currentTime"
      by simp
    have 1: "\<forall>x\<in>set (replicate (length sh) currentTime @ later).
               x - tower_lastShot t > tt_attackSpeed tt"
      using f l(2) pos ls by auto
    have "sorted_wrt (\<lambda>a b. b - a > tt_attackSpeed tt) (replicate (length sh) currentTime)"
      using f by (cases sh) auto
    then have 2: "sorted_wrt (\<lambda>a b. b - a > tt_attackSpeed tt)
                    (replicate (length sh) currentTime @ later)"
      using l(2,3) ls by (auto simp add: sorted_wrt_append)
    show ?thesis
      using shots 1 2 by simp
  qed
qed

lemma towerTypes_js_basic:
  "towerTypes_js ''basic'' =
     Some \<lparr>js_cost = 50, js_damage = 10, js_range = 100, js_color = ''blue'', js_accuracy = 0.8\<rparr>"
  by (simp add: towerTypes_js_def)

lemma towerShots_sampleTicks:
  "towerShots (new_Tower 100 200 ''basic'') sampleTicks = Inr [5000, 7002]"
  by (simp add: sampleTicks_def towerAttack_def new_Tower_def towerTypes_basic walker_def
      new_Enemy_def enemy_update_def Let_def isAlive_def hypot_less_iff canShoot_def shoot_def)

text \<open>Every reachable state has registered tower types only, so the loop returns in it.\<close>

lemma reachable_registered:
  "reachable s \<Longrightarrow> \<forall>t\<in>set (towers s). towerTypes (tower_type t) \<noteq> None"
proof (induction rule: reachable.induct)
  case (start dark)
  then show ?case by (simp add: initialGame_def)
next
  case (place s x y type s')
  then show ?case
    by (auto simp add: addTower_def Let_def new_Tower_def split: option.splits if_splits)
next
  case (spawn s)
  then show ?case by (simp add: spawnEnemy_def)
next
  case (loop s currentTime rng s' rng')
  obtain ts ps es rng'' where c: "combat currentTime rng s = Inr (ts, ps, es, rng'')"
      "map tower_type ts = map tower_type (towers s)"
    using combat_total [OF loop.IH] by blast
  have "towers s' = ts"
    using loop.hyps(2) c(1) by (auto simp add: gameLoop_def Let_def split: if_splits)
  then have "tower_type ` set (towers s') = tower_type ` set (towers s)"
    using c(2) by (metis set_map)
  then show ?case
    using loop.IH by (metis imageE imageI)
next
  case (effect s)
  then show ?case by (simp add: useEffect_gameLoop_def)
next
  case (setGameSpeed s speed)
  then show ?case by simp
next
  case (setPlacingTower s selected)
  then show ?case by simp
next
  case (setIsDarkMode s dark)
  then show ?case by simp
qed

lemma reachable_loop_returns:
  "reachable s \<Longrightarrow> \<exists>s' rng'. gameLoop currentTime rng s = Inr (s', rng')"
  using combat_total [OF reachable_registered, of s currentTime rng]
  by (auto simp add: gameLoop_def Let_def)

subsection \<open>Placing a tower\<close>

text \<open>
  C1.  A placement attempt with a registered tower type leaves the towers and the gold
  as they are when the gold is below the cost of the type; otherwise it appends exactly
  one tower and takes exactly the cost from the gold.
\<close>

theorem addTower_affordability:
  assumes "towerTypes k = Some tt"
  shows "(gold s < tt_cost tt \<longrightarrow>
            (\<exists>s'. addTower x y k s = Inr s' \<and> towers s' = towers s \<and> gold s' = gold s))
       \<and> (gold s \<ge> tt_cost tt \<longrightarrow>
            (\<exists>s'. addTower x y k s = Inr s' \<and> towers s' = towers s @ [new_Tower x y k]
               \<and> length (towers s') = length (towers s) + 1
               \<and> gold s' = gold s - tt_cost tt))"
  using assms by (simp add: addTower_def Let_def)

theorem addTower_affordability_witness:
  "(\<exists>s'. addTower 10 20 ''basic'' (initialGame False) = Inr s'
        \<and> towers s' = [new_Tower 10 20 ''basic''] \<and> gold s' = 150)
   \<and> (\<exists>s'. addTower 10 20 ''splash'' ((initialGame False)\<lparr>gold := 120\<rparr>) = Inr s'
        \<and> towers s' = [] \<and> gold s' = 120)"
  using addTower_affordability [OF towerTypes_basic, of "initialGame False" 10 20]
    addTower_affordability [OF towerTypes_splash, of "(initialGame False)\<lparr>gold := 120\<rparr>" 10 20]
  by (auto simp add: initialGame_def)

text \<open>
  C8.  After a placement attempt with a registered tower type, placement mode is off,
  whether the tower was bought or the gold did not suffice.
\<close>

theorem addTower_clears_placement:
  assumes "towerTypes k = Some tt"
  shows "\<exists>s'. addTower x y k s = Inr s' \<and> placingTower s' = None"
  using assms by (simp add: addTower_def Let_def)

theorem addTower_clears_placement_witness:
  "(\<exists>s'. addTower 10 20 ''sniper''
            ((initialGame False)\<lparr>placingTower := Some ''sniper''\<rparr>) = Inr s'
        \<and> placingTower s' = None)
   \<and> (\<exists>s'. addTower 10 20 ''sniper''
              ((initialGame False)\<lparr>gold := 99, placingTower := Some ''sniper''\<rparr>) = Inr s'
        \<and> placingTower s' = None)"
  using addTower_clears_placement [OF towerTypes_sniper, of 10 20
          "(initialGame False)\<lparr>placingTower := Some ''sniper''\<rparr>"]
    addTower_clears_placement [OF towerTypes_sniper, of 10 20
          "(initialGame False)\<lparr>gold := 99, placingTower := Some ''sniper''\<rparr>"]
  by simp

subsection \<open>Damage and resistance\<close>

text \<open>
  C5.  A hit lowers the health by the damage times one minus the resistance against the
  element, where a missing resistance counts as 0; nothing clamps the result, which can
  be negative.  Damage 10 against a fire resistance of 0.2 takes 8; a resistance of 0, or
  none, takes the raw damage.  An enemy is alive exactly when its health is above 0.
\<close>

theorem takeDamage_arithmetic:
  "enemy_health (takeDamage e d el)
     = enemy_health e - d * (1 - (case enemy_resistances e el of None \<Rightarrow> 0 | Some r \<Rightarrow> r))
   \<and> enemy_health (takeDamage (e\<lparr>enemy_resistances := [''fire'' \<mapsto> 0.2]\<rparr>) 10 ''fire'')
       = enemy_health e - 8
   \<and> enemy_health (takeDamage (e\<lparr>enemy_resistances := (enemy_resistances e)(el \<mapsto> 0)\<rparr>) d el)
       = enemy_health e - d
   \<and> enemy_health (takeDamage (e\<lparr>enemy_resistances := (enemy_resistances e)(el := None)\<rparr>) d el)
       = enemy_health e - d
   \<and> enemy_health (takeDamage (new_Enemy 0 200 5 [''fire'' \<mapsto> 0.2]) 10 ''fire'') = - 3
   \<and> isAlive e = (enemy_health e > 0)"
  by (simp add: takeDamage_def or_zero_def isAlive_def new_Enemy_def Let_def split: option.split)

subsection \<open>Targeting and attacking\<close>

text \<open>
  C6.  The target of a tower is the first enemy, in the order of the enemy array, that is
  closer than the range of the tower (strictly) and alive: the search returns an enemy
  exactly when it is at an index all of whose predecessors fail the test.  The search
  always returns; when no enemy passes the test the tower is left as it is, pushes no
  projectile and draws no random number.  In the instance that follows, a closer enemy
  stands later in the array and is not chosen.
\<close>

theorem findNearby_first_eligible:
  assumes "towerTypes (tower_type t) = Some tt"
  shows "(findNearby t es = Inr (Some e) \<longleftrightarrow>
            (\<exists>i<length es. es ! i = e
               \<and> hypot (enemy_x (es ! i) - tower_x t) (enemy_y (es ! i) - tower_y t) < tt_range tt
               \<and> isAlive (es ! i)
               \<and> (\<forall>j<i. \<not> (hypot (enemy_x (es ! j) - tower_x t) (enemy_y (es ! j) - tower_y t)
                                < tt_range tt \<and> isAlive (es ! j)))))
       \<and> (findNearby t es = Inr None \<longleftrightarrow>
            (\<forall>e\<in>set es. \<not> (hypot (enemy_x e - tower_x t) (enemy_y e - tower_y t) < tt_range tt
                             \<and> isAlive e)))
       \<and> (\<exists>r. findNearby t es = Inr r)
       \<and> (findNearby t es = Inr None \<longrightarrow> towerAttack now dark es t rng = Inr (t, [], rng))"
proof -
  let ?P = "\<lambda>e. hypot (enemy_x e - tower_x t) (enemy_y e - tower_y t) < tt_range tt \<and> isAlive e"
  have f: "findNearby t es = Inr (List.find ?P es)"
    using assms by (rule findNearby_find)
  have 1: "findNearby t es = Inr (Some e) \<longleftrightarrow>
            (\<exists>i<length es. es ! i = e \<and> ?P (es ! i) \<and> (\<forall>j<i. \<not> ?P (es ! j)))"
    unfolding f by (auto simp: find_Some_iff)
  have 2: "findNearby t es = Inr None \<longleftrightarrow> (\<forall>e\<in>set es. \<not> ?P e)"
    unfolding f by (auto simp: find_None_iff)
  have 3: "\<exists>r. findNearby t es = Inr r"
    unfolding f by simp
  have 4: "findNearby t es = Inr None \<longrightarrow> towerAttack now dark es t rng = Inr (t, [], rng)"
    by (simp add: towerAttack_def)
  from 1 2 3 4 show ?thesis by blast
qed

theorem findNearby_first_eligible_witness:
  "findNearby (new_Tower 100 200 ''basic'') [farEnemy, nearEnemy] = Inr (Some farEnemy)
   \<and> hypot (enemy_x nearEnemy - 100) (enemy_y nearEnemy - 200)
       < hypot (enemy_x farEnemy - 100) (enemy_y farEnemy - 200)"
proof -
  let ?t = "new_Tower 100 200 ''basic''"
  let ?tt = "\<lparr>tt_cost = 50, tt_damage = 10, tt_range = 100, tt_color = ''blue'',
              tt_accuracy = 0.8, tt_attackSpeed = 1000, tt_element = ''fire''\<rparr>"
  let ?es = "[farEnemy, nearEnemy]"
  have k: "towerTypes (tower_type ?t) = Some ?tt"
    by (simp add: new_Tower_def towerTypes_basic)
  have first: "\<exists>i<length ?es. ?es ! i = farEnemy
      \<and> hypot (enemy_x (?es ! i) - tower_x ?t) (enemy_y (?es ! i) - tower_y ?t) < tt_range ?tt
      \<and> isAlive (?es ! i)
      \<and> (\<forall>j<i. \<not> (hypot (enemy_x (?es ! j) - tower_x ?t) (enemy_y (?es ! j) - tower_y ?t)
                       < tt_range ?tt \<and> isAlive (?es ! j)))"
    by (rule exI [of _ 0])
      (simp add: new_Tower_def farEnemy_def new_Enemy_def isAlive_def hypot_less_iff)
  have "findNearby ?t ?es = Inr (Some farEnemy)"
    using findNearby_first_eligible [OF k, of ?es farEnemy, THEN conjunct1] first by blast
  moreover have "hypot (enemy_x nearEnemy - 100) (enemy_y nearEnemy - 200)
       < hypot (enemy_x farEnemy - 100) (enemy_y farEnemy - 200)"
    by (simp add: farEnemy_def nearEnemy_def new_Enemy_def hypot_def)
  ultimately show ?thesis by simp
qed

text \<open>
  C3.  A tower of a registered type that has an enemy in range and alive, and whose last
  shot lies more than its attack speed before the current time (strictly), has its last
  shot set to the current time by the loop, whatever the random draw; the draw decides
  only whether the one projectile is pushed.
\<close>

theorem attack_resets_lastShot:
  assumes "towerTypes (tower_type t) = Some tt"
    and "\<exists>e\<in>set es. hypot (enemy_x e - tower_x t) (enemy_y e - tower_y t) < tt_range tt
                      \<and> isAlive e"
    and "currentTime - tower_lastShot t > tt_attackSpeed tt"
  shows "\<exists>t' shots rng'. towerAttack currentTime dark es t rng = Inr (t', shots, rng')
           \<and> tower_lastShot t' = currentTime
           \<and> t' = t\<lparr>tower_lastShot := currentTime\<rparr>
           \<and> (shots \<noteq> [] \<longleftrightarrow> shd rng < tt_accuracy tt)
           \<and> length shots \<le> 1"
  using towerAttack_fires [OF assms, of dark rng] by (auto simp add: shoot_def)

theorem attack_resets_lastShot_witness:
  "(\<exists>shots rng'. towerAttack 6001 False [farEnemy] (new_Tower 100 200 ''basic'') (sconst 0.9)
       = Inr (new_Tower 100 200 ''basic''\<lparr>tower_lastShot := 6001\<rparr>, shots, rng') \<and> shots = [])
 \<and> (\<exists>shots rng'. towerAttack 6001 False [farEnemy] (new_Tower 100 200 ''basic'') (sconst 0.1)
       = Inr (new_Tower 100 200 ''basic''\<lparr>tower_lastShot := 6001\<rparr>, shots, rng') \<and> length shots = 1)"
proof -
  let ?t = "new_Tower 100 200 ''basic''"
  let ?tt = "\<lparr>tt_cost = 50, tt_damage = 10, tt_range = 100, tt_color = ''blue'',
              tt_accuracy = 0.8, tt_attackSpeed = 1000, tt_element = ''fire''\<rparr>"
  have k: "towerTypes (tower_type ?t) = Some ?tt"
    by (simp add: new_Tower_def towerTypes_basic)
  have r: "\<exists>e\<in>set [farEnemy]. hypot (enemy_x e - tower_x ?t) (enemy_y e - tower_y ?t) < tt_range ?tt
                      \<and> isAlive e"
    by (simp add: new_Tower_def farEnemy_def new_Enemy_def isAlive_def hypot_less_iff)
  have c: "6001 - tower_lastShot ?t > tt_attackSpeed ?tt"
    by (simp add: new_Tower_def)
  show ?thesis
    using attack_resets_lastShot [OF k r c, of False "sconst 0.9"]
      attack_resets_lastShot [OF k r c, of False "sconst 0.1"]
    by (auto simp add: le_Suc_eq)
qed

text \<open>
  C10.  A tower bought with a registered type enters the array with last shot 0.  At any
  current time above its attack speed it passes the cooldown test at once, and in a frame
  where an enemy is in range and alive the loop lets it attack (its last shot becomes the
  current time): no waiting time follows the placement.
\<close>

theorem new_tower_ready:
  assumes "towerTypes k = Some tt"
    and "gold s \<ge> tt_cost tt"
    and "currentTime > tt_attackSpeed tt"
  shows "\<exists>s' t. addTower x y k s = Inr s' \<and> towers s' = towers s @ [t]
           \<and> tower_lastShot t = 0
           \<and> canShoot t currentTime = Inr True
           \<and> ((\<exists>e\<in>set es. hypot (enemy_x e - tower_x t) (enemy_y e - tower_y t) < tt_range tt
                            \<and> isAlive e) \<longrightarrow>
               (\<exists>shots rng'. towerAttack currentTime dark es t rng
                   = Inr (t\<lparr>tower_lastShot := currentTime\<rparr>, shots, rng')))"
proof -
  let ?t = "new_Tower x y k"
  have k: "towerTypes (tower_type ?t) = Some tt"
    using assms(1) by (simp add: new_Tower_def)
  have c: "currentTime - tower_lastShot ?t > tt_attackSpeed tt"
    using assms(3) by (simp add: new_Tower_def)
  have 1: "addTower x y k s = Inr (s\<lparr>towers := towers s @ [?t], gold := gold s - tt_cost tt,
                                      placingTower := None\<rparr>)"
    using assms(1,2) by (simp add: addTower_def Let_def)
  have 2: "tower_lastShot ?t = 0"
    by (simp add: new_Tower_def)
  have 3: "canShoot ?t currentTime = Inr True"
    using k c by (simp add: canShoot_def)
  have 4: "(\<exists>e\<in>set es. hypot (enemy_x e - tower_x ?t) (enemy_y e - tower_y ?t) < tt_range tt
                            \<and> isAlive e) \<longrightarrow>
               (\<exists>shots rng'. towerAttack currentTime dark es ?t rng
                   = Inr (?t\<lparr>tower_lastShot := currentTime\<rparr>, shots, rng'))"
    using towerAttack_fires [OF k _ c, of es dark rng] by (auto simp add: shoot_def)
  show ?thesis
    using 1 2 3 4 by (intro exI [of _ "s\<lparr>towers := towers s @ [?t], gold := gold s - tt_cost tt,
                                      placingTower := None\<rparr>"] exI [of _ ?t]) simp
qed

theorem new_tower_ready_witness:
  "\<exists>s' t. addTower 100 200 ''basic'' (initialGame False) = Inr s' \<and> towers s' = [t]
      \<and> tower_lastShot t = 0
      \<and> canShoot t 1001 = Inr True
      \<and> (\<exists>shots rng'. towerAttack 1001 False [farEnemy] t (sconst 0)
            = Inr (t\<lparr>tower_lastShot := 1001\<rparr>, shots, rng'))"
proof -
  have g: "gold (initialGame False) \<ge> tt_cost \<lparr>tt_cost = 50, tt_damage = 10, tt_range = 100, tt_color = ''blue'',
           tt_accuracy = 0.8, tt_attackSpeed = 1000, tt_element = ''fire''\<rparr>"
    by (simp add: initialGame_def)
  have c: "1001 > tt_attackSpeed \<lparr>tt_cost = 50, tt_damage = 10, tt_range = 100, tt_color = ''blue'',
           tt_accuracy = 0.8, tt_attackSpeed = 1000, tt_element = ''fire''\<rparr>"
    by simp
  obtain s' t where st: "addTower 100 200 ''basic'' (initialGame False) = Inr s'"
      "towers s' = towers (initialGame False) @ [t]"
      "tower_lastShot t = 0" "canShoot t 1001 = Inr True"
      "(\<exists>e\<in>set [farEnemy]. hypot (enemy_x e - tower_x t) (enemy_y e - tower_y t) < 100
                            \<and> isAlive e) \<longrightarrow>
               (\<exists>shots rng'. towerAttack 1001 False [farEnemy] t (sconst 0)
                   = Inr (t\<lparr>tower_lastShot := 1001\<rparr>, shots, rng'))"
    using new_tower_ready [OF towerTypes_basic g c, of 100 200 "[farEnemy]" False "sconst 0"]
    by auto
  have t: "t = new_Tower 100 200 ''basic''"
    using st(1,2) by (auto simp add: addTower_def towerTypes_basic Let_def initialGame_def)
  have "\<exists>e\<in>set [farEnemy]. hypot (enemy_x e - tower_x t) (enemy_y e - tower_y t) < 100 \<and> isAlive e"
    by (simp add: t new_Tower_def farEnemy_def new_Enemy_def isAlive_def hypot_less_iff)
  with st show ?thesis by (auto simp add: initialGame_def)
qed

subsection \<open>Arrived projectiles\<close>

text \<open>
  C9.  An arrived projectile damages at most one enemy: the first one in the enemy array
  that is alive and less than 20 from the frozen target point takes the damage, all other
  entries stay as they are, and without such an enemy nothing changes.  The projectile
  carries a damage and an element only, whatever tower pushed it; in the instance that
  follows, the projectile of a splash tower finds two enemies within 20 of its target and
  damages the first.
\<close>

theorem projectile_hits_at_most_one:
  "((\<exists>i<length es. nearTarget p (es ! i) \<and> (\<forall>j<i. \<not> nearTarget p (es ! j))
        \<and> hitEnemy p es = es[i := takeDamage (es ! i) (proj_damage p) (proj_element p)])
     \<or> ((\<forall>e\<in>set es. \<not> nearTarget p e) \<and> hitEnemy p es = es))
   \<and> length (hitEnemy p es) = length es
   \<and> length (filter (\<lambda>i. hitEnemy p es ! i \<noteq> es ! i) [0..<length es]) \<le> 1
   \<and> nearTarget p e
       = (hypot (enemy_x e - proj_targetX p) (enemy_y e - proj_targetY p) < 20 \<and> isAlive e)
   \<and> (hypot (proj_targetX p - proj_x p) (proj_targetY p - proj_y p) < 5 \<longrightarrow>
        updateProjectiles speed [p] es = ([], hitEnemy p es))"
proof -
  have 1: "(\<exists>i<length es. nearTarget p (es ! i) \<and> (\<forall>j<i. \<not> nearTarget p (es ! j))
        \<and> hitEnemy p es = es[i := takeDamage (es ! i) (proj_damage p) (proj_element p)])
     \<or> ((\<forall>e\<in>set es. \<not> nearTarget p e) \<and> hitEnemy p es = es)"
  proof (cases "\<forall>e\<in>set es. \<not> nearTarget p e")
    case True
    then show ?thesis by (simp add: hitEnemy_none)
  next
    case False
    then have "List.find (nearTarget p) es \<noteq> None"
      by (auto simp add: find_None_iff)
    then obtain i where i: "i < length es" "nearTarget p (es ! i)"
        "\<forall>j<i. \<not> nearTarget p (es ! j)"
      by (auto simp add: find_Some_iff)
    then show ?thesis
      using hitEnemy_first [OF i] by blast
  qed
  have 2: "hypot (proj_targetX p - proj_x p) (proj_targetY p - proj_y p) < 5 \<longrightarrow>
        updateProjectiles speed [p] es = ([], hitEnemy p es)"
    by (simp add: projectile_update_def Let_def)
  show ?thesis
    using 1 2 hitEnemy_changes_le_1 [of p es] by (simp add: nearTarget_def)
qed

theorem projectile_hits_at_most_one_witness:
  "towerAttack 5000 False [walker 26.5, walker 28.5] (new_Tower 100 200 ''splash'') (sconst 0)
     = Inr (new_Tower 100 200 ''splash''\<lparr>tower_lastShot := 5000\<rparr>,
            [splashShot\<lparr>proj_x := 100\<rparr>], sconst 0)
   \<and> updateProjectiles 1 [splashShot] [walker 26.5, walker 28.5]
       = ([], [walker 26.5\<lparr>enemy_health := 282\<rparr>, walker 28.5])"
proof -
  let ?es = "[walker 26.5, walker 28.5]"
  have shot: "towerAttack 5000 False ?es (new_Tower 100 200 ''splash'') (sconst 0)
     = Inr (new_Tower 100 200 ''splash''\<lparr>tower_lastShot := 5000\<rparr>,
            [splashShot\<lparr>proj_x := 100\<rparr>], sconst 0)"
    by (simp add: towerAttack_def canShoot_def shoot_def new_Tower_def towerTypes_splash
        walker_def new_Enemy_def isAlive_def hypot_less_iff new_Projectile_def
        projectileColor_def splashShot_def)
  have near: "nearTarget splashShot (walker 26.5)" "nearTarget splashShot (walker 28.5)"
    by (simp_all add: nearTarget_def splashShot_def new_Projectile_def walker_def new_Enemy_def
        isAlive_def hypot_less_iff)
  have arrived: "hypot (proj_targetX splashShot - proj_x splashShot)
                   (proj_targetY splashShot - proj_y splashShot) < 5"
    by (simp add: splashShot_def new_Projectile_def hypot_less_iff)
  have dmg: "takeDamage (walker 26.5) (proj_damage splashShot) (proj_element splashShot)
               = walker 26.5\<lparr>enemy_health := 282\<rparr>"
    by (simp add: takeDamage_def or_zero_def splashShot_def new_Projectile_def walker_def
        new_Enemy_def Let_def)
  have "\<not> (\<forall>e\<in>set ?es. \<not> nearTarget splashShot e)"
    using near by simp
  then obtain i where i: "i < length ?es" "nearTarget splashShot (?es ! i)"
      "\<forall>j<i. \<not> nearTarget splashShot (?es ! j)"
      "hitEnemy splashShot ?es
         = ?es[i := takeDamage (?es ! i) (proj_damage splashShot) (proj_element splashShot)]"
    using projectile_hits_at_most_one [of ?es splashShot] by blast
  have "i = 0"
    using i(3) near(1) by (cases i) auto
  with i(4) dmg have "hitEnemy splashShot ?es = [walker 26.5\<lparr>enemy_health := 282\<rparr>, walker 28.5]"
    by simp
  moreover have "updateProjectiles 1 [splashShot] ?es = ([], hitEnemy splashShot ?es)"
    using projectile_hits_at_most_one [of ?es splashShot] arrived by blast
  ultimately show ?thesis using shot by simp
qed

subsection \<open>Economy\<close>

text \<open>
  C4.  One call of the loop, with registered tower types, returns; the enemies it removes
  are those that after movement and combat have health at most 0 or progress at least
  200, counted alike, and with \<open>removedCount\<close> their number the gold goes up by exactly
  \<open>10 * removedCount\<close> and the lives go down by exactly \<open>1 * removedCount\<close>.
\<close>

theorem removal_economy:
  assumes "\<forall>t\<in>set (towers s). towerTypes (tower_type t) \<noteq> None"
  shows "\<exists>ts ps es rng' s'.
           combat currentTime rng s = Inr (ts, ps, es, rng')
         \<and> gameLoop currentTime rng s = Inr (s', rng')
         \<and> enemies s' = filter (\<lambda>e. isAlive e \<and> \<not> reachedEnd e) es
         \<and> length es = length (enemies s)
         \<and> (let removedCount = length (filter (\<lambda>e. enemy_health e \<le> 0 \<or> enemy_progress e \<ge> 200) es)
            in removedCount = length (enemies s) - length (enemies s')
             \<and> gold s' = gold s + 10 * real removedCount
             \<and> lives s' = lives s - 1 * real removedCount)"
proof -
  obtain ts ps es rng' where c: "combat currentTime rng s = Inr (ts, ps, es, rng')"
      "length es = length (enemies s)"
    using combat_total [OF assms] by blast
  have s: "(\<lambda>e. isAlive e \<and> \<not> reachedEnd e) = surviving"
    by (auto simp add: surviving_def)
  show ?thesis
    using c length_filter_surviving [of es]
    by (auto simp add: gameLoop_def Let_def s)
qed

theorem removal_economy_witness:
  "\<exists>s' rng'. gameLoop 5000 (sconst 0) sampleGame = Inr (s', rng')
      \<and> enemies s' = [walker 29.5] \<and> gold s' = 220 \<and> lives s' = 18"
proof -
  have reg: "\<forall>t\<in>set (towers sampleGame). towerTypes (tower_type t) \<noteq> None"
    by (simp add: sampleGame_def initialGame_def new_Tower_def towerTypes_basic)
  obtain ts ps es rng' s' where r:
      "combat 5000 (sconst 0) sampleGame = Inr (ts, ps, es, rng')"
      "gameLoop 5000 (sconst 0) sampleGame = Inr (s', rng')"
      "enemies s' = filter (\<lambda>e. isAlive e \<and> \<not> reachedEnd e) es"
      "let removedCount = length (filter (\<lambda>e. enemy_health e \<le> 0 \<or> enemy_progress e \<ge> 200) es)
       in removedCount = length (enemies sampleGame) - length (enemies s')
        \<and> gold s' = gold sampleGame + 10 * real removedCount
        \<and> lives s' = lives sampleGame - 1 * real removedCount"
    using removal_economy [OF reg, of 5000 "sconst 0"] by blast
  have es: "es = [walker 200.5, walker 27.5\<lparr>enemy_health := - 13\<rparr>, walker 29.5]"
    using r(1) by (simp add: combat_sampleGame)
  have "enemies s' = [walker 29.5]"
    using r(3) by (simp add: es walker_def new_Enemy_def isAlive_def reachedEnd_def)
  moreover have "gold s' = 220 \<and> lives s' = 18"
    using r(4) by (simp add: es walker_def new_Enemy_def sampleGame_def initialGame_def Let_def)
  ultimately show ?thesis
    using r(2) by simp
qed

subsection \<open>Cooldown\<close>

text \<open>
  C2.  In the component of \<^verbatim>\<open>src/components/TowerDefenseGame.tsx\<close>, over any sequence
  of frames with any game speeds, enemies and random draws, a tower of a registered type
  pushes its projectiles at times any two of which lie more than the attack speed of its
  type apart; its cooldown test compares the time since the last shot with that attack
  speed and does not read the game speed.  The test of the older component compares with
  \<open>1000 / gameSpeed\<close>.
\<close>

theorem cooldown_spacing:
  assumes "towerTypes (tower_type t) = Some tt"
  shows "(\<exists>shots. towerShots t ticks = Inr shots
           \<and> (\<forall>i j. i < j \<and> j < length shots \<longrightarrow> shots ! j - shots ! i > tt_attackSpeed tt))
       \<and> canShoot t currentTime = Inr (currentTime - tower_lastShot t > tt_attackSpeed tt)
       \<and> canShoot_js t currentTime speed
           = (speed \<noteq> 0 \<and> currentTime - tower_lastShot t > 1000 / speed)"
proof -
  obtain shots where s: "towerShots t ticks = Inr shots"
      "sorted_wrt (\<lambda>a b. b - a > tt_attackSpeed tt) shots"
    using towerShots_spaced [OF assms] by blast
  have "\<forall>i j. i < j \<and> j < length shots \<longrightarrow> shots ! j - shots ! i > tt_attackSpeed tt"
    using s(2) by (auto simp add: sorted_wrt_iff_nth_less)
  with s(1) show ?thesis
    using assms by (auto simp add: canShoot_def canShoot_js_def)
qed

theorem cooldown_spacing_witness:
  "towerShots (new_Tower 100 200 ''basic'') sampleTicks = Inr [5000, 7002]
   \<and> [5000, 7002] ! 1 - [5000, 7002] ! 0 > (1000 :: real)"
proof -
  have k: "towerTypes (tower_type (new_Tower 100 200 ''basic'')) =
     Some \<lparr>tt_cost = 50, tt_damage = 10, tt_range = 100, tt_color = ''blue'',
           tt_accuracy = 0.8, tt_attackSpeed = 1000, tt_element = ''fire''\<rparr>"
    by (simp add: new_Tower_def towerTypes_basic)
  obtain shots where s: "towerShots (new_Tower 100 200 ''basic'') sampleTicks = Inr shots"
      "\<forall>i j. i < j \<and> j < length shots \<longrightarrow> shots ! j - shots ! i > 1000"
    using cooldown_spacing [OF k, of sampleTicks 0 1, THEN conjunct1] by auto
  have e: "shots = [5000, 7002]"
    using s(1) by (simp add: towerShots_sampleTicks)
  then have "(0::nat) < 1 \<and> 1 < length shots"
    by simp
  with s(2) have "shots ! 1 - shots ! 0 > 1000"
    by blast
  with e show ?thesis
    using s(1) by simp
qed

text \<open>
  The older component at double speed: two projectiles of one tower 600 ms apart, and a
  cooldown test that holds at speed 2 and fails at speed 1.
\<close>

theorem cooldown_scaled_js:
  "towerShots_js (new_Tower 100 200 ''basic'') sampleTicks_js = Inr [1000000, 1000600]
   \<and> \<not> ((1000600 :: real) - 1000000 > 1000)
   \<and> canShoot_js (new_Tower 100 200 ''basic'') 600 2
   \<and> \<not> canShoot_js (new_Tower 100 200 ''basic'') 600 1"
  by (simp add: sampleTicks_js_def towerAttack_js_def new_Tower_def towerTypes_js_basic
      new_Enemy_js_def enemy_update_js_def Let_def isAlive_js_def hypot_less_iff canShoot_js_def
      shoot_def)

subsection \<open>Game over\<close>

text \<open>
  C7.  The loop does not stop in the frame that brings the lives to 0.  With one life
  left and an enemy reaching the end of the track, the call of \<open>gameLoop\<close> sets the lives
  to 0 and requests the next frame, since it tests the \<open>lives\<close> of its own render.  The
  next call runs with \<open>lives = 0\<close>, moves the remaining enemy, and only then requests no
  further frame.  When such a call removes an enemy, the lives go to \<open>-1\<close>, the gold goes
  up, and the effect requests the loop again.
\<close>

theorem game_over_keeps_running:
  "gameLoop 5000 (sconst 0) lastLife
     = Inr (lastLife\<lparr>enemies := [walker 1], lives := 0, gold := 210\<rparr>, sconst 0)
   \<and> animationFrame (lastLife\<lparr>enemies := [walker 1], lives := 0, gold := 210\<rparr>)
   \<and> frame 5000 (sconst 0) lastLife
     = Inr (lastLife\<lparr>enemies := [walker 1], lives := 0, gold := 210\<rparr>, sconst 0)
   \<and> frame 5016 (sconst 0) (lastLife\<lparr>enemies := [walker 1], lives := 0, gold := 210\<rparr>)
     = Inr (lastLife\<lparr>enemies := [walker 2], lives := 0, gold := 210,
                     animationFrame := False\<rparr>, sconst 0)
   \<and> frame 5016 (sconst 0) (lastLife\<lparr>enemies := [walker 199], lives := 0, gold := 210\<rparr>)
     = Inr (lastLife\<lparr>enemies := [], lives := - 1, gold := 220,
                     animationFrame := True\<rparr>, sconst 0)"
  by (simp add: frame_def gameLoop_def combat_def lastLife_def initialGame_def walker_def
      new_Enemy_def enemy_update_def Let_def surviving_def isAlive_def reachedEnd_def
      useEffect_gameLoop_def)

end
